theory Spec2Isabelle
  imports Main
begin

section \<open>Data model of \<open>homeassistant/components/tplink/entity.py\<close>\<close>

text \<open>
  The module reads \<open>kasa.Device\<close> and \<open>kasa.Feature\<close> objects and never mutates them.
  The enumerations list the members the module names; the remaining members of the
  library's enumerations are kept apart (\<open>OtherDeviceType\<close>, \<open>Unset\<close>) since the module
  has a fallback branch for them.
\<close>

datatype DeviceType = Bulb | LightStrip | Dimmer | Hub | Plug | Strip | OtherDeviceType string

datatype Category = Primary | Config | Info | Debug | Unset

datatype FeatureType = Type_Sensor | Type_BinarySensor | Type_Switch | Type_Action
  | Type_Number | Type_Choice | Type_Unknown

datatype EntityCategory = CONFIG | DIAGNOSTIC

record Feature =
  feature_id :: string
  feature_name :: string
  feature_type :: FeatureType
  feature_category :: Category

text \<open>
  A device. \<open>hw_info\<close> and \<open>features\<close> are Python dicts, kept as association lists in
  the dict's iteration order and read with \<open>map_of\<close>. \<open>is_IotDevice\<close> is
  \<open>isinstance(device, IotDevice)\<close>. Python compares \<open>Device\<close> objects by identity; the
  model compares their values, so two device objects are the same object exactly when
  all their fields agree.
\<close>

datatype Device = Device
  (device_id: string)
  (device_alias: string)
  (model: string)
  (mac: string)
  (device_type: DeviceType)
  (hw_info: "(string \<times> string) list")
  (features: "(string \<times> Feature) list")
  (children: "Device list")
  (is_IotDevice: bool)

text \<open>
  What the module imports from code that is outside this file: the constants \<open>DOMAIN\<close>
  and \<open>PRIMARY_STATE_ID\<close> of \<open>.const\<close>, \<open>CONNECTION_NETWORK_MAC\<close> of the device
  registry, and the function \<open>legacy_device_id\<close> of the package. They are parameters of
  the model.
\<close>

record env =
  DOMAIN :: string
  PRIMARY_STATE_ID :: string
  CONNECTION_NETWORK_MAC :: string
  legacy_device_id :: "Device \<Rightarrow> string"

record EntityDescription =
  key :: string
  translation_key :: string
  name :: string
  entity_registry_enabled_default :: bool

text \<open>
  What the concrete entity subclass contributes to the base class: whether it derives
  from \<open>SensorEntity\<close> and from \<open>LightEntity\<close>, and the value that reading
  \<open>self.entity_description\<close> gives (\<open>None\<close> is Python's \<open>None\<close>).
\<close>

record entity_class =
  is_SensorEntity :: bool
  is_LightEntity :: bool
  entity_description :: "EntityDescription option"

section \<open>Unique ids\<close>

text \<open>\<open>s.replace(c, "")\<close> for a one-character string \<open>c\<close>.\<close>

definition replace_char_empty :: "char \<Rightarrow> string \<Rightarrow> string" where
  "replace_char_empty c s = filter (\<lambda>x. x \<noteq> c) s"

text \<open>
  \<open>str.upper\<close> on ASCII text, which is what a MAC address is: the letters \<open>a\<close> to \<open>z\<close>
  (codes 97 to 122) move down by 32, every other character stays.
\<close>

definition upper_char :: "char \<Rightarrow> char" where
  "upper_char c =
     (let n = (of_char c :: nat) in if 97 \<le> n \<and> n \<le> 122 then char_of (n - 32) else c)"

definition upper :: "string \<Rightarrow> string" where
  "upper s = map upper_char s"

text \<open>
  \<open>_get_unique_id\<close>. \<open>self\<close> is read through the entity class, \<open>self._device\<close> and
  \<open>self._feature\<close>. The result is \<open>None\<close> where the Python function reaches its end
  without a \<open>return\<close>.
\<close>

definition get_unique_id :: "env \<Rightarrow> entity_class \<Rightarrow> Device \<Rightarrow> Feature option \<Rightarrow> string option" where
  "get_unique_id env cls device feature =
     (case feature of
        Some f \<Rightarrow>
          (if feature_id f = PRIMARY_STATE_ID env
           then Some (legacy_device_id env device)
           else Some (legacy_device_id env device @ ''_'' @ feature_id f))
      | None \<Rightarrow>
          (if is_LightEntity cls
           then
             (let unique_id = upper (replace_char_empty (CHR '':'') (mac device));
                  unique_id = (if device_type device = Dimmer \<and> is_IotDevice device
                               then legacy_device_id env device else unique_id)
              in Some unique_id)
           else
             (case entity_description cls of
                Some d \<Rightarrow> Some (legacy_device_id env device @ ''_'' @ key d)
              | None \<Rightarrow> None)))"

section \<open>Entity categories\<close>

definition FEATURE_CATEGORY_TO_ENTITY_CATEGORY :: "Category \<Rightarrow> EntityCategory option" where
  "FEATURE_CATEGORY_TO_ENTITY_CATEGORY =
     [Config \<mapsto> CONFIG, Info \<mapsto> DIAGNOSTIC, Debug \<mapsto> DIAGNOSTIC]"

definition DEVICETYPES_WITH_SPECIALIZED_PLATFORMS :: "DeviceType set" where
  "DEVICETYPES_WITH_SPECIALIZED_PLATFORMS = {Bulb, LightStrip, Dimmer}"

text \<open>
  \<open>_category_for_feature\<close>. The fallback branch for a category missing from the table
  also writes an error line to the module's logger; the value it returns is modelled.
\<close>

definition category_for_feature :: "Feature option \<Rightarrow> EntityCategory option" where
  "category_for_feature feature =
     (case feature of
        None \<Rightarrow> None
      | Some f \<Rightarrow>
          (if feature_category f = Primary then None
           else
             (case FEATURE_CATEGORY_TO_ENTITY_CATEGORY (feature_category f) of
                None \<Rightarrow> Some DIAGNOSTIC
              | Some entity_category \<Rightarrow> Some entity_category)))"

section \<open>The constructor of \<open>CoordinatedTPLinkEntity\<close>\<close>

datatype error = KeyError string

text \<open>\<open>d[k]\<close> on a dict: a missing key raises \<open>KeyError\<close>.\<close>

definition getitem :: "(string \<times> 'v) list \<Rightarrow> string \<Rightarrow> error + 'v" where
  "getitem d k = (case map_of d k of None \<Rightarrow> Inl (KeyError k) | Some v \<Rightarrow> Inr v)"

text \<open>
  \<open>DeviceInfo\<close> is a dict in which every key is optional. The constructor call always
  passes the first six keys; \<open>via_device\<close> and \<open>connections\<close> are \<open>None\<close> while the key
  is absent.
\<close>

record DeviceInfo =
  identifiers :: "(string \<times> string) set"
  manufacturer :: string
  info_model :: string
  info_name :: string
  sw_version :: string
  hw_version :: string
  via_device :: "(string \<times> string) option"
  connections :: "(string \<times> string) set option"

text \<open>
  The attributes of an entity that the base class sets. \<open>attr_name\<close> is \<open>None\<close> where
  the constructor leaves \<open>_attr_name\<close> alone; \<open>attr_available\<close> and \<open>entity_id\<close> start at
  the defaults of the platform's entity class (\<open>True\<close> and \<open>None\<close>).
\<close>

record entity =
  entity_cls :: entity_class
  ent_device :: Device
  ent_feature :: "Feature option"
  attr_name :: "string option"
  attr_device_info :: DeviceInfo
  attr_unique_id :: "string option"
  attr_entity_category :: "EntityCategory option"
  attr_available :: bool
  entity_id :: "string option"

text \<open>
  \<open>CoordinatedTPLinkEntity.__init__(device, coordinator, feature, parent)\<close>. The
  coordinator is only handed to the superclass. The two reads of \<open>hw_info\<close> can raise
  \<open>KeyError\<close>, in the order in which the arguments of \<open>DeviceInfo\<close> are evaluated, and then
  no entity exists. A \<open>Device\<close> and a \<open>Feature\<close> object are always truthy, so \<open>if parent\<close>
  and \<open>not feature\<close> test for \<open>None\<close>.
\<close>

definition CoordinatedTPLinkEntity_init ::
  "env \<Rightarrow> entity_class \<Rightarrow> Device \<Rightarrow> Feature option \<Rightarrow> Device option \<Rightarrow> error + entity" where
  "CoordinatedTPLinkEntity_init env cls device feature parent =
     (let (registry_device, name, attr_name) =
        (case parent of
           None \<Rightarrow> (device, device_alias device, None)
         | Some p \<Rightarrow>
             (if device_type p \<noteq> Hub then
                (if \<not> is_SensorEntity cls \<and>
                    (case feature of None \<Rightarrow> True | Some f \<Rightarrow> feature_category f = Primary)
                 then (p, device_alias p, Some (device_alias device))
                 else (device, device_alias p @ '' '' @ device_alias device, None))
              else (device, device_alias device, None)))
      in
        (case getitem (hw_info registry_device) ''sw_ver'' of
           Inl e \<Rightarrow> Inl e
         | Inr sw_ver \<Rightarrow>
             (case getitem (hw_info registry_device) ''hw_ver'' of
                Inl e \<Rightarrow> Inl e
              | Inr hw_ver \<Rightarrow>
                  (let device_info =
                         \<lparr>identifiers = {(DOMAIN env, device_id registry_device)},
                          manufacturer = ''TP-Link'',
                          info_model = model registry_device,
                          info_name = name,
                          sw_version = sw_ver,
                          hw_version = hw_ver,
                          via_device = None,
                          connections = None\<rparr>;
                       device_info =
                         (case parent of
                            None \<Rightarrow>
                              device_info\<lparr>connections :=
                                Some {(CONNECTION_NETWORK_MAC env, mac device)}\<rparr>
                          | Some p \<Rightarrow>
                              (if p \<noteq> registry_device
                               then device_info\<lparr>via_device := Some (DOMAIN env, device_id p)\<rparr>
                               else device_info\<lparr>connections :=
                                      Some {(CONNECTION_NETWORK_MAC env, mac device)}\<rparr>))
                   in Inr \<lparr>entity_cls = cls,
                           ent_device = device,
                           ent_feature = feature,
                           attr_name = attr_name,
                           attr_device_info = device_info,
                           attr_unique_id = get_unique_id env cls device feature,
                           attr_entity_category = category_for_feature feature,
                           attr_available = True,
                           entity_id = None\<rparr>))))"

text \<open>The devices on which both reads of \<open>hw_info\<close> succeed.\<close>

definition has_versions :: "Device \<Rightarrow> bool" where
  "has_versions d =
     (map_of (hw_info d) ''sw_ver'' \<noteq> None \<and> map_of (hw_info d) ''hw_ver'' \<noteq> None)"

section \<open>Enumerating the features of a device\<close>

text \<open>
  The list comprehension of \<open>_entities_for_device\<close> over \<open>device.features.values()\<close>:
  each feature is tested and, when it passes, constructed before the next one is looked
  at; a constructor that raises ends the comprehension. \<open>entity_class(...)\<close> is the
  constructor of the subclass, which reaches the base class's constructor.
\<close>

fun entities_for_features ::
  "env \<Rightarrow> entity_class \<Rightarrow> Device \<Rightarrow> FeatureType \<Rightarrow> Device option \<Rightarrow> Feature list
     \<Rightarrow> error + entity list" where
  "entities_for_features env cls device ftype parent [] = Inr []"
| "entities_for_features env cls device ftype parent (feat # rest) =
     (if feature_type feat = ftype \<and>
         (feature_category feat \<noteq> Primary \<or>
          device_type device \<notin> DEVICETYPES_WITH_SPECIALIZED_PLATFORMS)
      then
        (case CoordinatedTPLinkEntity_init env cls device (Some feat) parent of
           Inl e \<Rightarrow> Inl e
         | Inr x \<Rightarrow>
             (case entities_for_features env cls device ftype parent rest of
                Inl e \<Rightarrow> Inl e
              | Inr xs \<Rightarrow> Inr (x # xs)))
      else entities_for_features env cls device ftype parent rest)"

definition entities_for_device ::
  "env \<Rightarrow> entity_class \<Rightarrow> Device \<Rightarrow> FeatureType \<Rightarrow> Device option \<Rightarrow> error + entity list" where
  "entities_for_device env cls device ftype parent =
     entities_for_features env cls device ftype parent (map snd (features device))"

text \<open>The loop of \<open>_entities_for_device_and_its_children\<close> over \<open>device.children\<close>.\<close>

fun entities_for_children ::
  "env \<Rightarrow> entity_class \<Rightarrow> Device \<Rightarrow> FeatureType \<Rightarrow> Device list \<Rightarrow> entity list
     \<Rightarrow> error + entity list" where
  "entities_for_children env cls device ftype [] entities = Inr entities"
| "entities_for_children env cls device ftype (child # rest) entities =
     (case entities_for_device env cls child ftype (Some device) of
        Inl e \<Rightarrow> Inl e
      | Inr xs \<Rightarrow> entities_for_children env cls device ftype rest (entities @ xs))"

definition entities_for_device_and_its_children ::
  "env \<Rightarrow> entity_class \<Rightarrow> Device \<Rightarrow> FeatureType \<Rightarrow> error + entity list" where
  "entities_for_device_and_its_children env cls device ftype =
     (case entities_for_children env cls device ftype (children device) [] of
        Inl e \<Rightarrow> Inl e
      | Inr entities \<Rightarrow>
          (case entities_for_device env cls device ftype None of
             Inl e \<Rightarrow> Inl e
           | Inr xs \<Rightarrow> Inr (entities @ xs)))"

section \<open>Descriptions\<close>

text \<open>
  The keyword arguments of \<open>_description_for_feature\<close>: a dict with one optional key,
  \<open>None\<close> while the caller did not pass it.
\<close>

record EntityDescriptionExtras =
  extras_entity_registry_enabled_default :: "bool option"

text \<open>
  \<open>_description_for_feature\<close>. The description class only decides the further fields of
  the record, which the function does not set.
\<close>

definition description_for_feature :: "Feature \<Rightarrow> EntityDescriptionExtras \<Rightarrow> EntityDescription" where
  "description_for_feature feature kwargs =
     (let enabled =
        (case extras_entity_registry_enabled_default kwargs of
           None \<Rightarrow> feature_category feature \<noteq> Debug
         | Some b \<Rightarrow> b)
      in \<lparr>key = feature_id feature,
          translation_key = feature_id feature,
          name = feature_name feature,
          entity_registry_enabled_default = enabled\<rparr>)"

section \<open>The write-action wrapper\<close>

text \<open>
  Exceptions, with the text that \<open>str(ex)\<close> gives. \<open>AuthenticationError\<close> and
  \<open>TimeoutError\<close> are the two subclasses of the library's \<open>KasaException\<close> that the
  wrapper names; \<open>KasaException\<close> stands for every other exception of the library and
  \<open>OtherException\<close> for an exception that is not the library's.
\<close>

datatype exception =
  AuthenticationError string
  | TimeoutError string
  | KasaException string
  | OtherException string

fun str :: "exception \<Rightarrow> string" where
  "str (AuthenticationError m) = m"
| "str (TimeoutError m) = m"
| "str (KasaException m) = m"
| "str (OtherException m) = m"

text \<open>\<open>isinstance(ex, KasaException)\<close> and \<open>isinstance(ex, AuthenticationError)\<close>.\<close>

fun is_KasaException :: "exception \<Rightarrow> bool" where
  "is_KasaException (OtherException m) = False"
| "is_KasaException ex = True"

fun is_AuthenticationError :: "exception \<Rightarrow> bool" where
  "is_AuthenticationError (AuthenticationError m) = True"
| "is_AuthenticationError ex = False"

text \<open>
  What leaves the wrapper: a \<open>HomeAssistantError\<close> with its translation domain, key and
  placeholders, raised from the original exception, or an exception that no \<open>except\<close>
  clause caught.
\<close>

datatype raised =
  HomeAssistantError string string "(string \<times> string) list" exception
  | Uncaught exception

text \<open>The calls that reach the coordinator and its config entry, in order.\<close>

datatype call = async_start_reauth | async_request_refresh

text \<open>
  The wrapped coroutine: its \<open>__name__\<close>, and what awaiting it with the arguments at hand
  does: it returns (\<open>None\<close>) or raises, and may have made calls of its own.
\<close>

record wrapped_func =
  func_name :: string
  func_call :: "call list \<Rightarrow> exception option \<times> call list"

definition async_refresh_after ::
  "env \<Rightarrow> wrapped_func \<Rightarrow> call list \<Rightarrow> raised option \<times> call list" where
  "async_refresh_after env func calls =
     (case func_call func calls of
        (Some (AuthenticationError m), calls') \<Rightarrow>
          (Some (HomeAssistantError (DOMAIN env) ''device_authentication''
                   [(''func'', func_name func), (''exc'', str (AuthenticationError m))]
                   (AuthenticationError m)),
           calls' @ [async_start_reauth])
      | (Some (TimeoutError m), calls') \<Rightarrow>
          (Some (HomeAssistantError (DOMAIN env) ''device_timeout''
                   [(''func'', func_name func), (''exc'', str (TimeoutError m))]
                   (TimeoutError m)),
           calls')
      | (Some (KasaException m), calls') \<Rightarrow>
          (Some (HomeAssistantError (DOMAIN env) ''device_error''
                   [(''func'', func_name func), (''exc'', str (KasaException m))]
                   (KasaException m)),
           calls')
      | (Some (OtherException m), calls') \<Rightarrow> (Some (Uncaught (OtherException m)), calls')
      | (None, calls') \<Rightarrow> (None, calls' @ [async_request_refresh]))"

section \<open>Availability\<close>

text \<open>A warning of the module's logger: the format string and its three arguments.\<close>

datatype log_record = Warning string Device "string option" exception

text \<open>
  \<open>_async_call_update_attrs\<close>. The subclass hook \<open>_async_update_attrs\<close> is abstract; its
  outcome at this refresh is the input: \<open>None\<close> when it returns, \<open>Some ex\<close> when it raises
  the \<open>Exception\<close> \<open>ex\<close>. The state is the entity and the logger's output. The first
  component of the result is the exception that leaves the function.
\<close>

definition async_call_update_attrs ::
  "exception option \<Rightarrow> entity \<times> log_record list
     \<Rightarrow> exception option \<times> entity \<times> log_record list" where
  "async_call_update_attrs outcome st =
     (case st of (self, log) \<Rightarrow>
        (case outcome of
           Some ex \<Rightarrow>
             (None,
              self\<lparr>attr_available := False\<rparr>,
              (if attr_available self
               then log @ [Warning ''Unable to read data for %s %s: %s''
                             (ent_device self) (entity_id self) ex]
               else log))
         | None \<Rightarrow> (None, self\<lparr>attr_available := True\<rparr>, log)))"

text \<open>
  \<open>_handle_coordinator_update\<close>: the call above, then the superclass's handler, which
  writes the state to the platform and leaves the entity as it is. An exception of the
  first call would skip the second.
\<close>

definition handle_coordinator_update ::
  "exception option \<Rightarrow> entity \<times> log_record list
     \<Rightarrow> exception option \<times> entity \<times> log_record list" where
  "handle_coordinator_update outcome st =
     (case async_call_update_attrs outcome st of
        (Some ex, st') \<Rightarrow> (Some ex, st')
      | (None, st') \<Rightarrow> (None, st'))"

text \<open>
  A sequence of coordinator refreshes, one hook outcome each. A refresh whose handler
  raised would end the sequence with that exception.
\<close>

fun refreshes ::
  "exception option list \<Rightarrow> entity \<times> log_record list
     \<Rightarrow> exception option \<times> entity \<times> log_record list" where
  "refreshes [] st = (None, st)"
| "refreshes (outcome # rest) st =
     (case handle_coordinator_update outcome st of
        (Some ex, st') \<Rightarrow> (Some ex, st')
      | (None, st') \<Rightarrow> refreshes rest st')"

text \<open>The property \<open>available\<close>, given the coordinator's \<open>last_update_success\<close>.\<close>

definition available :: "bool \<Rightarrow> entity \<Rightarrow> bool" where
  "available last_update_success self = (last_update_success \<and> attr_available self)"

text \<open>
  The failure streaks of a sequence of outcomes, counted at their first refresh: the
  positions that fail and whose predecessor, if there is one, succeeded.
\<close>

definition failure_streaks :: "exception option list \<Rightarrow> nat" where
  "failure_streaks outcomes =
     length (filter (\<lambda>i. outcomes ! i \<noteq> None \<and> (i = 0 \<or> outcomes ! (i - 1) = None))
               [0..<length outcomes])"

section \<open>Sample inputs\<close>

text \<open>
  Values of the imported names, the identifier function that keeps the device id, and
  devices (a power strip with a child plug, a hub with a sensor, a bulb and a dimmer),
  wrapped write actions and entity classes.
\<close>

definition sample_env :: env where
  "sample_env =
     \<lparr>DOMAIN = ''tplink'', PRIMARY_STATE_ID = ''state'', CONNECTION_NETWORK_MAC = ''mac'',
      legacy_device_id = device_id\<rparr>"

definition feat_state :: Feature where
  "feat_state =
     \<lparr>feature_id = ''state'', feature_name = ''State'',
      feature_type = Type_Switch, feature_category = Primary\<rparr>"

definition feat_led :: Feature where
  "feat_led =
     \<lparr>feature_id = ''led'', feature_name = ''LED'',
      feature_type = Type_Switch, feature_category = Config\<rparr>"

definition feat_rssi :: Feature where
  "feat_rssi =
     \<lparr>feature_id = ''rssi'', feature_name = ''RSSI'',
      feature_type = Type_Sensor, feature_category = Debug\<rparr>"

definition sample_features :: "(string \<times> Feature) list" where
  "sample_features = [(''state'', feat_state), (''led'', feat_led), (''rssi'', feat_rssi)]"

definition sample_hw_info :: "(string \<times> string) list" where
  "sample_hw_info = [(''sw_ver'', ''1.0.3''), (''hw_ver'', ''2.0'')]"

definition plug :: Device where
  "plug = Device ''P1_00'' ''Lamp'' ''KP303'' ''aa:bb:cc:00:11:22'' Plug
            sample_hw_info sample_features [] True"

definition strip :: Device where
  "strip = Device ''P1'' ''Desk'' ''KP303'' ''aa:bb:cc:00:11:22'' Strip
             sample_hw_info sample_features [plug] True"

definition t315 :: Device where
  "t315 = Device ''S1'' ''Attic'' ''T315'' ''aa:bb:cc:00:11:44'' (OtherDeviceType ''Sensor'')
            sample_hw_info sample_features [] False"

definition hub :: Device where
  "hub = Device ''H1'' ''Hallway'' ''H100'' ''aa:bb:cc:00:11:33'' Hub
           sample_hw_info [] [t315] False"

definition bulb :: Device where
  "bulb = Device ''B1'' ''Ceiling'' ''KL130'' ''aa:bb:cc:0d:1e:2f'' Bulb
            sample_hw_info sample_features [] True"

definition dimmer :: Device where
  "dimmer = Device ''D1'' ''Stairs'' ''HS220'' ''aa:bb:cc:0d:1e:30'' Dimmer
              sample_hw_info sample_features [] True"

definition turn_on_ok :: wrapped_func where
  "turn_on_ok = \<lparr>func_name = ''async_turn_on'', func_call = (\<lambda>calls. (None, calls))\<rparr>"

definition turn_on_denied :: wrapped_func where
  "turn_on_denied =
     \<lparr>func_name = ''async_turn_on'',
      func_call = (\<lambda>calls. (Some (AuthenticationError ''Invalid credentials''), calls))\<rparr>"

definition turn_on_timeout :: wrapped_func where
  "turn_on_timeout =
     \<lparr>func_name = ''async_turn_on'',
      func_call = (\<lambda>calls. (Some (TimeoutError ''Timed out''), calls))\<rparr>"

definition switch_cls :: entity_class where
  "switch_cls = \<lparr>is_SensorEntity = False, is_LightEntity = False, entity_description = None\<rparr>"

definition light_cls :: entity_class where
  "light_cls = \<lparr>is_SensorEntity = False, is_LightEntity = True, entity_description = None\<rparr>"

definition sensor_cls :: entity_class where
  "sensor_cls = \<lparr>is_SensorEntity = True, is_LightEntity = False, entity_description = None\<rparr>"

section \<open>Facts about the constructor\<close>

lemma init_fields:
  assumes "CoordinatedTPLinkEntity_init env cls device feature parent = Inr e"
  shows "entity_cls e = cls" and "ent_device e = device" and "ent_feature e = feature"
    and "attr_unique_id e = get_unique_id env cls device feature"
    and "attr_entity_category e = category_for_feature feature"
    and "attr_available e" and "entity_id e = None"
  using assms
  by (auto simp: CoordinatedTPLinkEntity_init_def Let_def split: sum.splits prod.splits)

lemma getitem_Inr: "map_of d k \<noteq> None \<Longrightarrow> \<exists>v. getitem d k = Inr v"
  by (auto simp: getitem_def)

text \<open>The constructor returns an entity when the devices it may register carry both versions.\<close>

lemma init_returns:
  assumes "has_versions device" and "\<And>p. parent = Some p \<Longrightarrow> has_versions p"
  shows "\<exists>e. CoordinatedTPLinkEntity_init env cls device feature parent = Inr e"
proof -
  obtain rd nm an where rd:
    "(case parent of
           None \<Rightarrow> (device, device_alias device, None)
         | Some p \<Rightarrow>
             (if device_type p \<noteq> Hub then
                (if \<not> is_SensorEntity cls \<and>
                    (case feature of None \<Rightarrow> True | Some f \<Rightarrow> feature_category f = Primary)
                 then (p, device_alias p, Some (device_alias device))
                 else (device, device_alias p @ '' '' @ device_alias device, None))
              else (device, device_alias device, None))) = (rd, nm, an)"
    using prod_cases3 by blast
  have "rd = device \<or> parent = Some rd"
    using rd by (auto split: option.splits if_splits)
  then have "has_versions rd" using assms by auto
  then obtain sw hw where "getitem (hw_info rd) ''sw_ver'' = Inr sw"
    and "getitem (hw_info rd) ''hw_ver'' = Inr hw"
    unfolding has_versions_def using getitem_Inr by metis
  then show ?thesis
    unfolding CoordinatedTPLinkEntity_init_def rd by (simp add: Let_def)
qed

text \<open>The four ways in which the constructor fills the registry record.\<close>

lemma init_no_parent:
  assumes "CoordinatedTPLinkEntity_init env cls device feature None = Inr e"
  shows "identifiers (attr_device_info e) = {(DOMAIN env, device_id device)}"
    and "manufacturer (attr_device_info e) = ''TP-Link''"
    and "info_model (attr_device_info e) = model device"
    and "info_name (attr_device_info e) = device_alias device"
    and "via_device (attr_device_info e) = None"
    and "connections (attr_device_info e) = Some {(CONNECTION_NETWORK_MAC env, mac device)}"
    and "getitem (hw_info device) ''sw_ver'' = Inr (sw_version (attr_device_info e))"
    and "getitem (hw_info device) ''hw_ver'' = Inr (hw_version (attr_device_info e))"
    and "attr_name e = None"
  using assms
  by (auto simp: CoordinatedTPLinkEntity_init_def Let_def split: sum.splits)

lemma init_hub_parent:
  assumes "CoordinatedTPLinkEntity_init env cls device feature (Some p) = Inr e"
    and "device_type p = Hub" and "p \<noteq> device"
  shows "identifiers (attr_device_info e) = {(DOMAIN env, device_id device)}"
    and "manufacturer (attr_device_info e) = ''TP-Link''"
    and "info_model (attr_device_info e) = model device"
    and "info_name (attr_device_info e) = device_alias device"
    and "via_device (attr_device_info e) = Some (DOMAIN env, device_id p)"
    and "connections (attr_device_info e) = None"
    and "getitem (hw_info device) ''sw_ver'' = Inr (sw_version (attr_device_info e))"
    and "getitem (hw_info device) ''hw_ver'' = Inr (hw_version (attr_device_info e))"
    and "attr_name e = None"
  using assms
  by (auto simp: CoordinatedTPLinkEntity_init_def Let_def split: sum.splits)

lemma init_collapsed:
  assumes "CoordinatedTPLinkEntity_init env cls device feature (Some p) = Inr e"
    and "device_type p \<noteq> Hub" and "\<not> is_SensorEntity cls"
    and "feature = None \<or> (\<exists>f. feature = Some f \<and> feature_category f = Primary)"
  shows "identifiers (attr_device_info e) = {(DOMAIN env, device_id p)}"
    and "manufacturer (attr_device_info e) = ''TP-Link''"
    and "info_model (attr_device_info e) = model p"
    and "info_name (attr_device_info e) = device_alias p"
    and "via_device (attr_device_info e) = None"
    and "connections (attr_device_info e) = Some {(CONNECTION_NETWORK_MAC env, mac device)}"
    and "getitem (hw_info p) ''sw_ver'' = Inr (sw_version (attr_device_info e))"
    and "getitem (hw_info p) ''hw_ver'' = Inr (hw_version (attr_device_info e))"
    and "attr_name e = Some (device_alias device)"
  using assms
  by (auto simp: CoordinatedTPLinkEntity_init_def Let_def split: sum.splits)

lemma init_prefixed:
  assumes "CoordinatedTPLinkEntity_init env cls device feature (Some p) = Inr e"
    and "device_type p \<noteq> Hub"
    and "is_SensorEntity cls \<or> (\<exists>f. feature = Some f \<and> feature_category f \<noteq> Primary)"
    and "p \<noteq> device"
  shows "identifiers (attr_device_info e) = {(DOMAIN env, device_id device)}"
    and "manufacturer (attr_device_info e) = ''TP-Link''"
    and "info_model (attr_device_info e) = model device"
    and "info_name (attr_device_info e) = device_alias p @ '' '' @ device_alias device"
    and "via_device (attr_device_info e) = Some (DOMAIN env, device_id p)"
    and "connections (attr_device_info e) = None"
    and "getitem (hw_info device) ''sw_ver'' = Inr (sw_version (attr_device_info e))"
    and "getitem (hw_info device) ''hw_ver'' = Inr (hw_version (attr_device_info e))"
    and "attr_name e = None"
  using assms
  by (auto simp: CoordinatedTPLinkEntity_init_def Let_def split: sum.splits)

section \<open>Upper-casing\<close>

lemma upper_char_code:
  "(of_char (upper_char c) :: nat) =
     (if 97 \<le> (of_char c :: nat) \<and> (of_char c :: nat) \<le> 122
      then of_char c - 32 else of_char c)"
  by (auto simp: upper_char_def Let_def)

lemma upper_char_not_colon:
  assumes "upper_char c = CHR '':''"
  shows "c = CHR '':''"
proof -
  have "(of_char (upper_char c) :: nat) = 58" using assms by simp
  then have "(of_char c :: nat) = 58"
    unfolding upper_char_code by (simp split: if_splits)
  then have "(of_char c :: nat) = of_char (CHR '':'')" by simp
  then show ?thesis by (rule of_char_eqI)
qed

lemma upper_char_not_lower:
  "\<not> (97 \<le> (of_char (upper_char c) :: nat) \<and> (of_char (upper_char c) :: nat) \<le> 122)"
  unfolding upper_char_code by auto

section \<open>Unique ids: the claims\<close>

text \<open>
  C1. An entity with a feature: when the feature's id is the primary-state id, the unique
  id is the legacy device id alone; otherwise it is the legacy device id, an underscore
  and the feature id. The constructor stores that id. Two features of one device with
  different ids get different unique ids, whatever the legacy device id is.
\<close>

theorem unique_id_of_feature:
  "get_unique_id env cls device (Some f) =
     Some (if feature_id f = PRIMARY_STATE_ID env then legacy_device_id env device
           else legacy_device_id env device @ ''_'' @ feature_id f)
   \<and> (\<forall>parent e. CoordinatedTPLinkEntity_init env cls device (Some f) parent = Inr e \<longrightarrow>
         attr_unique_id e = get_unique_id env cls device (Some f))
   \<and> (feature_id f \<noteq> feature_id g \<longrightarrow>
         get_unique_id env cls device (Some f) \<noteq> get_unique_id env cls' device (Some g))"
  by (auto simp: get_unique_id_def init_fields(4))

theorem unique_id_of_feature_witness:
  "feature_id feat_state \<noteq> feature_id feat_led
   \<and> map_sum id attr_unique_id
       (CoordinatedTPLinkEntity_init sample_env switch_cls plug (Some feat_state) (Some strip))
     = Inr (Some ''P1_00'')
   \<and> map_sum id attr_unique_id
       (CoordinatedTPLinkEntity_init sample_env switch_cls plug (Some feat_led) (Some strip))
     = Inr (Some ''P1_00_led'')
   \<and> get_unique_id sample_env switch_cls plug (Some feat_state)
       \<noteq> get_unique_id sample_env switch_cls plug (Some feat_led)"
proof -
  have "feature_id feat_state \<noteq> feature_id feat_led"
    by (simp add: feat_state_def feat_led_def)
  moreover have "map_sum id attr_unique_id
       (CoordinatedTPLinkEntity_init sample_env switch_cls plug (Some feat_state) (Some strip))
     = Inr (Some ''P1_00'')"
    by code_simp
  moreover have "map_sum id attr_unique_id
       (CoordinatedTPLinkEntity_init sample_env switch_cls plug (Some feat_led) (Some strip))
     = Inr (Some ''P1_00_led'')"
    by code_simp
  ultimately show ?thesis
    using unique_id_of_feature [of sample_env switch_cls plug feat_state feat_led switch_cls]
    by blast
qed

text \<open>
  C2. A light entity without a feature: the unique id is the device's MAC with the
  colons removed and in upper case, unless the device is a Dimmer of the legacy
  \<open>IotDevice\<close> family, where it is the legacy device id. The constructor stores that id.
  The MAC form holds no colon and no lower-case letter.
\<close>

theorem unique_id_of_light:
  assumes "is_LightEntity cls"
  shows "get_unique_id env cls device None =
           Some (if device_type device = Dimmer \<and> is_IotDevice device
                 then legacy_device_id env device
                 else upper (replace_char_empty (CHR '':'') (mac device)))
         \<and> (\<forall>parent e. CoordinatedTPLinkEntity_init env cls device None parent = Inr e \<longrightarrow>
               attr_unique_id e = get_unique_id env cls device None)
         \<and> CHR '':'' \<notin> set (upper (replace_char_empty (CHR '':'') (mac device)))
         \<and> (\<forall>c \<in> set (upper (replace_char_empty (CHR '':'') (mac device))).
               \<not> (97 \<le> (of_char c :: nat) \<and> (of_char c :: nat) \<le> 122))"
  using assms upper_char_not_colon upper_char_not_lower
  by (auto simp: get_unique_id_def init_fields(4) upper_def replace_char_empty_def Let_def)

theorem unique_id_of_light_witness:
  "is_LightEntity light_cls
   \<and> map_sum id attr_unique_id (CoordinatedTPLinkEntity_init sample_env light_cls bulb None None)
     = Inr (Some ''AABBCC0D1E2F'')
   \<and> map_sum id attr_unique_id (CoordinatedTPLinkEntity_init sample_env light_cls dimmer None None)
     = Inr (Some ''D1'')"
proof -
  have "is_LightEntity light_cls" by (simp add: light_cls_def)
  moreover have "map_sum id attr_unique_id
      (CoordinatedTPLinkEntity_init sample_env light_cls bulb None None)
     = Inr (Some ''AABBCC0D1E2F'')"
    by code_simp
  moreover have "map_sum id attr_unique_id
      (CoordinatedTPLinkEntity_init sample_env light_cls dimmer None None) = Inr (Some ''D1'')"
    by code_simp
  ultimately show ?thesis
    using unique_id_of_light [of light_cls sample_env bulb]
      unique_id_of_light [of light_cls sample_env dimmer]
    by simp
qed

text \<open>
  C10. An entity without a feature that is not a light and whose entity description is
  \<open>None\<close>: the function reaches its end and returns no identifier, and the constructor
  stores \<open>None\<close> as the unique id. The constructor accepts such an input.
\<close>

theorem unique_id_undefined:
  assumes "\<not> is_LightEntity cls" and "entity_description cls = None"
  shows "get_unique_id env cls device None = None
         \<and> (\<forall>parent e. CoordinatedTPLinkEntity_init env cls device None parent = Inr e \<longrightarrow>
               attr_unique_id e = None)"
  using assms by (simp add: get_unique_id_def init_fields(4))

theorem unique_id_undefined_witness:
  "\<not> is_LightEntity switch_cls \<and> entity_description switch_cls = None
   \<and> map_sum id attr_unique_id (CoordinatedTPLinkEntity_init sample_env switch_cls plug None None)
     = Inr None"
proof -
  have "\<not> is_LightEntity switch_cls \<and> entity_description switch_cls = None"
    by (simp add: switch_cls_def)
  moreover have "map_sum id attr_unique_id
      (CoordinatedTPLinkEntity_init sample_env switch_cls plug None None) = Inr None"
    by code_simp
  ultimately show ?thesis
    using unique_id_undefined [of switch_cls sample_env plug]
    by simp
qed

lemma has_versions_samples:
  "has_versions plug" "has_versions strip" "has_versions hub" "has_versions bulb"
  "has_versions dimmer" "has_versions t315"
  by (simp_all add: has_versions_def plug_def strip_def hub_def bulb_def dimmer_def t315_def
      sample_hw_info_def)

section \<open>Registry devices: the claims\<close>

text \<open>
  C3, as stated, fails under a hub: a sensor device attached to a hub registers as its
  own device, but its registry record carries a \<open>via_device\<close> link to the hub and no
  connection identifier.
\<close>

theorem root_counterexample:
  "device_type hub = Hub
   \<and> map_sum id (identifiers \<circ> attr_device_info)
       (CoordinatedTPLinkEntity_init sample_env sensor_cls t315 (Some feat_rssi) (Some hub))
     = Inr {(''tplink'', ''S1'')}
   \<and> map_sum id (connections \<circ> attr_device_info)
       (CoordinatedTPLinkEntity_init sample_env sensor_cls t315 (Some feat_rssi) (Some hub))
     = Inr None
   \<and> map_sum id (via_device \<circ> attr_device_info)
       (CoordinatedTPLinkEntity_init sample_env sensor_cls t315 (Some feat_rssi) (Some hub))
     = Inr (Some (''tplink'', ''H1''))"
  by code_simp

text \<open>
  C3, amended. An entity constructed without a parent registers under its own device,
  named by the device's alias, with the device's MAC as connection identifier and no
  \<open>via_device\<close> link. An entity constructed with a Hub parent other than the device
  itself registers under its own device with the same name, and its record carries a
  \<open>via_device\<close> link to the hub and no connection identifier.
\<close>

theorem root_registration:
  assumes "CoordinatedTPLinkEntity_init env cls device feature parent = Inr e"
  shows "(parent = None \<longrightarrow>
            identifiers (attr_device_info e) = {(DOMAIN env, device_id device)}
            \<and> info_model (attr_device_info e) = model device
            \<and> info_name (attr_device_info e) = device_alias device
            \<and> connections (attr_device_info e) = Some {(CONNECTION_NETWORK_MAC env, mac device)}
            \<and> via_device (attr_device_info e) = None)
         \<and> (\<forall>p. parent = Some p \<and> device_type p = Hub \<and> p \<noteq> device \<longrightarrow>
            identifiers (attr_device_info e) = {(DOMAIN env, device_id device)}
            \<and> info_model (attr_device_info e) = model device
            \<and> info_name (attr_device_info e) = device_alias device
            \<and> connections (attr_device_info e) = None
            \<and> via_device (attr_device_info e) = Some (DOMAIN env, device_id p))"
proof (intro conjI impI allI)
  assume "parent = None"
  with assms have a: "CoordinatedTPLinkEntity_init env cls device feature None = Inr e" by simp
  show "identifiers (attr_device_info e) = {(DOMAIN env, device_id device)}"
    and "info_model (attr_device_info e) = model device"
    and "info_name (attr_device_info e) = device_alias device"
    and "connections (attr_device_info e) = Some {(CONNECTION_NETWORK_MAC env, mac device)}"
    and "via_device (attr_device_info e) = None"
    using init_no_parent [OF a] by simp_all
next
  fix p
  assume h: "parent = Some p \<and> device_type p = Hub \<and> p \<noteq> device"
  with assms have a: "CoordinatedTPLinkEntity_init env cls device feature (Some p) = Inr e"
    by simp
  from h have b: "device_type p = Hub" and c: "p \<noteq> device" by simp_all
  show "identifiers (attr_device_info e) = {(DOMAIN env, device_id device)}"
    and "info_model (attr_device_info e) = model device"
    and "info_name (attr_device_info e) = device_alias device"
    and "connections (attr_device_info e) = None"
    and "via_device (attr_device_info e) = Some (DOMAIN env, device_id p)"
    using init_hub_parent [OF a b c] by simp_all
qed

theorem root_registration_witness:
  "(\<exists>e. CoordinatedTPLinkEntity_init sample_env light_cls bulb None None = Inr e
        \<and> identifiers (attr_device_info e) = {(''tplink'', ''B1'')}
        \<and> info_name (attr_device_info e) = ''Ceiling''
        \<and> connections (attr_device_info e) = Some {(''mac'', ''aa:bb:cc:0d:1e:2f'')}
        \<and> via_device (attr_device_info e) = None)
   \<and> (\<exists>e. CoordinatedTPLinkEntity_init sample_env sensor_cls t315 (Some feat_rssi) (Some hub)
            = Inr e
        \<and> device_type hub = Hub \<and> hub \<noteq> t315
        \<and> identifiers (attr_device_info e) = {(''tplink'', ''S1'')}
        \<and> info_name (attr_device_info e) = ''Attic''
        \<and> connections (attr_device_info e) = None
        \<and> via_device (attr_device_info e) = Some (''tplink'', ''H1''))"
proof -
  obtain e1 where e1: "CoordinatedTPLinkEntity_init sample_env light_cls bulb None None = Inr e1"
    using init_returns [of bulb None] has_versions_samples by blast
  obtain e2 where e2:
    "CoordinatedTPLinkEntity_init sample_env sensor_cls t315 (Some feat_rssi) (Some hub) = Inr e2"
    using init_returns [of t315 "Some hub"] has_versions_samples by blast
  have h: "device_type hub = Hub \<and> hub \<noteq> t315" by (simp add: hub_def t315_def)
  from root_registration [OF e1]
  have "identifiers (attr_device_info e1) = {(''tplink'', ''B1'')}
        \<and> info_name (attr_device_info e1) = ''Ceiling''
        \<and> connections (attr_device_info e1) = Some {(''mac'', ''aa:bb:cc:0d:1e:2f'')}
        \<and> via_device (attr_device_info e1) = None"
    by (simp add: sample_env_def bulb_def)
  moreover from root_registration [OF e2] h
  have "identifiers (attr_device_info e2) = {(''tplink'', ''S1'')}
        \<and> info_name (attr_device_info e2) = ''Attic''
        \<and> connections (attr_device_info e2) = None
        \<and> via_device (attr_device_info e2) = Some (''tplink'', ''H1'')"
    by (simp add: sample_env_def t315_def hub_def)
  ultimately show ?thesis using e1 e2 h by blast
qed

text \<open>
  C4, as stated, fails for a sensor-domain class: a sensor entity without a feature on the
  child of a power strip registers under the child, with the prefixed name and a
  \<open>via_device\<close> link to the strip.
\<close>

theorem child_counterexample:
  "device_type strip \<noteq> Hub \<and> is_SensorEntity sensor_cls
   \<and> map_sum id (identifiers \<circ> attr_device_info)
       (CoordinatedTPLinkEntity_init sample_env sensor_cls plug None (Some strip))
     = Inr {(''tplink'', ''P1_00'')}
   \<and> map_sum id (info_name \<circ> attr_device_info)
       (CoordinatedTPLinkEntity_init sample_env sensor_cls plug None (Some strip))
     = Inr ''Desk Lamp''
   \<and> map_sum id (via_device \<circ> attr_device_info)
       (CoordinatedTPLinkEntity_init sample_env sensor_cls plug None (Some strip))
     = Inr (Some (''tplink'', ''P1''))"
  by code_simp

text \<open>
  C4, amended. An entity constructed with a non-Hub parent P on the child device C: when
  the entity is not a sensor-domain class and the feature is absent or of category
  Primary, it registers under P with the name P.alias and no \<open>via_device\<close> link;
  otherwise (a sensor-domain class, or a feature of another category), with P and C
  different devices, it registers under C with the name "P.alias C.alias" and a
  \<open>via_device\<close> link to P.
\<close>

theorem child_registration:
  assumes "CoordinatedTPLinkEntity_init env cls device feature (Some p) = Inr e"
    and "device_type p \<noteq> Hub"
  shows "(\<not> is_SensorEntity cls
            \<and> (feature = None \<or> (\<exists>f. feature = Some f \<and> feature_category f = Primary)) \<longrightarrow>
            identifiers (attr_device_info e) = {(DOMAIN env, device_id p)}
            \<and> info_model (attr_device_info e) = model p
            \<and> info_name (attr_device_info e) = device_alias p
            \<and> via_device (attr_device_info e) = None)
         \<and> ((is_SensorEntity cls \<or> (\<exists>f. feature = Some f \<and> feature_category f \<noteq> Primary))
            \<and> p \<noteq> device \<longrightarrow>
            identifiers (attr_device_info e) = {(DOMAIN env, device_id device)}
            \<and> info_model (attr_device_info e) = model device
            \<and> info_name (attr_device_info e) = device_alias p @ '' '' @ device_alias device
            \<and> via_device (attr_device_info e) = Some (DOMAIN env, device_id p))"
proof (intro conjI impI)
  assume h: "\<not> is_SensorEntity cls
            \<and> (feature = None \<or> (\<exists>f. feature = Some f \<and> feature_category f = Primary))"
  then have b: "\<not> is_SensorEntity cls"
    and c: "feature = None \<or> (\<exists>f. feature = Some f \<and> feature_category f = Primary)"
    by simp_all
  show "identifiers (attr_device_info e) = {(DOMAIN env, device_id p)}"
    and "info_model (attr_device_info e) = model p"
    and "info_name (attr_device_info e) = device_alias p"
    and "via_device (attr_device_info e) = None"
    using init_collapsed [OF assms b c] by simp_all
next
  assume h: "(is_SensorEntity cls \<or> (\<exists>f. feature = Some f \<and> feature_category f \<noteq> Primary))
            \<and> p \<noteq> device"
  then have b: "is_SensorEntity cls \<or> (\<exists>f. feature = Some f \<and> feature_category f \<noteq> Primary)"
    and c: "p \<noteq> device"
    by simp_all
  show "identifiers (attr_device_info e) = {(DOMAIN env, device_id device)}"
    and "info_model (attr_device_info e) = model device"
    and "info_name (attr_device_info e) = device_alias p @ '' '' @ device_alias device"
    and "via_device (attr_device_info e) = Some (DOMAIN env, device_id p)"
    using init_prefixed [OF assms b c] by simp_all
qed


theorem child_registration_witness:
  "device_type strip \<noteq> Hub \<and> strip \<noteq> plug
   \<and> (\<exists>e. CoordinatedTPLinkEntity_init sample_env switch_cls plug (Some feat_state) (Some strip)
            = Inr e
        \<and> \<not> is_SensorEntity switch_cls \<and> feature_category feat_state = Primary
        \<and> identifiers (attr_device_info e) = {(''tplink'', ''P1'')}
        \<and> info_name (attr_device_info e) = ''Desk''
        \<and> via_device (attr_device_info e) = None)
   \<and> (\<exists>e. CoordinatedTPLinkEntity_init sample_env switch_cls plug (Some feat_led) (Some strip)
            = Inr e
        \<and> feature_category feat_led \<noteq> Primary
        \<and> identifiers (attr_device_info e) = {(''tplink'', ''P1_00'')}
        \<and> info_name (attr_device_info e) = ''Desk Lamp''
        \<and> via_device (attr_device_info e) = Some (''tplink'', ''P1''))"
proof -
  have h: "device_type strip \<noteq> Hub" and d: "strip \<noteq> plug"
    by (simp_all add: strip_def plug_def)
  have c1: "\<not> is_SensorEntity switch_cls" and c2: "feature_category feat_state = Primary"
    and c3: "feature_category feat_led \<noteq> Primary"
    by (simp_all add: switch_cls_def feat_state_def feat_led_def)
  obtain e1 where e1:
    "CoordinatedTPLinkEntity_init sample_env switch_cls plug (Some feat_state) (Some strip) = Inr e1"
    using init_returns [of plug "Some strip"] has_versions_samples by blast
  obtain e2 where e2:
    "CoordinatedTPLinkEntity_init sample_env switch_cls plug (Some feat_led) (Some strip) = Inr e2"
    using init_returns [of plug "Some strip"] has_versions_samples by blast
  from child_registration [OF e1 h] c1 c2
  have "identifiers (attr_device_info e1) = {(''tplink'', ''P1'')}
        \<and> info_name (attr_device_info e1) = ''Desk''
        \<and> via_device (attr_device_info e1) = None"
    by (simp add: sample_env_def strip_def)
  moreover from child_registration [OF e2 h] c3 d
  have "identifiers (attr_device_info e2) = {(''tplink'', ''P1_00'')}
        \<and> info_name (attr_device_info e2) = ''Desk Lamp''
        \<and> via_device (attr_device_info e2) = Some (''tplink'', ''P1'')"
    by (simp add: sample_env_def strip_def plug_def)
  ultimately show ?thesis using e1 e2 h d c1 c2 c3 by blast
qed

lemma init_one_link:
  assumes "CoordinatedTPLinkEntity_init env cls device feature parent = Inr e"
  shows "(connections (attr_device_info e) = None) \<noteq> (via_device (attr_device_info e) = None)"
  using assms
  by (auto simp: CoordinatedTPLinkEntity_init_def Let_def
      split: sum.splits prod.splits option.splits if_splits)

text \<open>
  C5. Every entity that the constructor returns has a registry record with exactly one of
  the connection identifiers and the \<open>via_device\<close> link: at least one and not both. The
  constructor returns an entity whenever the device and the parent, if any, carry both
  version entries.
\<close>

theorem exactly_one_link:
  "(has_versions device \<and> (\<forall>p. parent = Some p \<longrightarrow> has_versions p) \<longrightarrow>
      (\<exists>e. CoordinatedTPLinkEntity_init env cls device feature parent = Inr e))
   \<and> (\<forall>e. CoordinatedTPLinkEntity_init env cls device feature parent = Inr e \<longrightarrow>
         (connections (attr_device_info e) \<noteq> None \<or> via_device (attr_device_info e) \<noteq> None)
         \<and> \<not> (connections (attr_device_info e) \<noteq> None
               \<and> via_device (attr_device_info e) \<noteq> None))"
proof (intro conjI impI allI)
  assume "has_versions device \<and> (\<forall>p. parent = Some p \<longrightarrow> has_versions p)"
  then show "\<exists>e. CoordinatedTPLinkEntity_init env cls device feature parent = Inr e"
    using init_returns [of device parent env cls feature] by simp
next
  fix e
  assume "CoordinatedTPLinkEntity_init env cls device feature parent = Inr e"
  from init_one_link [OF this]
  show "connections (attr_device_info e) \<noteq> None \<or> via_device (attr_device_info e) \<noteq> None"
    and "\<not> (connections (attr_device_info e) \<noteq> None
           \<and> via_device (attr_device_info e) \<noteq> None)"
    by auto
qed

theorem exactly_one_link_witness:
  "has_versions plug \<and> has_versions strip
   \<and> (\<exists>e. CoordinatedTPLinkEntity_init sample_env switch_cls plug (Some feat_led) (Some strip)
            = Inr e
        \<and> connections (attr_device_info e) = None
        \<and> via_device (attr_device_info e) \<noteq> None)
   \<and> (\<exists>e. CoordinatedTPLinkEntity_init sample_env switch_cls strip (Some feat_led) None = Inr e
        \<and> connections (attr_device_info e) \<noteq> None
        \<and> via_device (attr_device_info e) = None)"
proof -
  have v: "has_versions plug" "has_versions strip"
    by (simp_all add: has_versions_samples)
  have a: "map_sum id (connections \<circ> attr_device_info)
       (CoordinatedTPLinkEntity_init sample_env switch_cls plug (Some feat_led) (Some strip))
     = Inr None"
    by code_simp
  have b: "map_sum id (via_device \<circ> attr_device_info)
       (CoordinatedTPLinkEntity_init sample_env switch_cls strip (Some feat_led) None)
     = Inr None"
    by code_simp
  from exactly_one_link [of plug "Some strip" sample_env switch_cls "Some feat_led"] v
  obtain e1 where e1:
    "CoordinatedTPLinkEntity_init sample_env switch_cls plug (Some feat_led) (Some strip) = Inr e1"
    and l1: "(connections (attr_device_info e1) \<noteq> None \<or> via_device (attr_device_info e1) \<noteq> None)"
    by auto
  from exactly_one_link [of strip None sample_env switch_cls "Some feat_led"] v
  obtain e2 where e2:
    "CoordinatedTPLinkEntity_init sample_env switch_cls strip (Some feat_led) None = Inr e2"
    and l2: "(connections (attr_device_info e2) \<noteq> None \<or> via_device (attr_device_info e2) \<noteq> None)"
    by auto
  from a e1 have "connections (attr_device_info e1) = None" by simp
  moreover from b e2 have "via_device (attr_device_info e2) = None" by simp
  ultimately show ?thesis using v e1 e2 l1 l2 by blast
qed

section \<open>Feature enumeration: the claim\<close>

lemma entities_for_features_Inr:
  "entities_for_features env cls device ftype parent fs = Inr es \<Longrightarrow>
     map ent_feature es =
       map Some (filter (\<lambda>feat. feature_type feat = ftype \<and>
                    (feature_category feat \<noteq> Primary \<or>
                     device_type device \<notin> {Bulb, LightStrip, Dimmer})) fs)
     \<and> (\<forall>e \<in> set es. ent_device e = device)"
proof (induction fs arbitrary: es)
  case Nil
  then show ?case by simp
next
  case (Cons feat rest)
  show ?case
  proof (cases "feature_type feat = ftype \<and>
                    (feature_category feat \<noteq> Primary \<or>
                     device_type device \<notin> {Bulb, LightStrip, Dimmer})")
    case True
    with Cons.prems obtain x xs
      where x: "CoordinatedTPLinkEntity_init env cls device (Some feat) parent = Inr x"
        and xs: "entities_for_features env cls device ftype parent rest = Inr xs"
        and es: "es = x # xs"
      by (auto simp: DEVICETYPES_WITH_SPECIALIZED_PLATFORMS_def split: sum.splits)
    from Cons.IH [OF xs] init_fields(2,3) [OF x] True es show ?thesis by simp
  next
    case False
    with Cons.prems
    have "entities_for_features env cls device ftype parent rest = Inr es"
      by (auto simp: DEVICETYPES_WITH_SPECIALIZED_PLATFORMS_def)
    from Cons.IH [OF this] False show ?thesis by simp
  qed
qed

lemma entities_for_features_returns:
  assumes "has_versions device" and "\<And>p. parent = Some p \<Longrightarrow> has_versions p"
  shows "\<exists>es. entities_for_features env cls device ftype parent fs = Inr es"
proof (induction fs)
  case Nil
  then show ?case by simp
next
  case (Cons feat rest)
  then obtain xs where xs: "entities_for_features env cls device ftype parent rest = Inr xs"
    by blast
  obtain x where "CoordinatedTPLinkEntity_init env cls device (Some feat) parent = Inr x"
    using init_returns [OF assms] by blast
  with xs show ?case by simp
qed

text \<open>
  C6. The entities that \<open>_entities_for_device\<close> returns are, in the order of the device's
  features, one for each feature whose type is the requested type and whose category is
  not Primary or whose device's type is not Bulb, LightStrip or Dimmer: a feature of the
  device has an entity if and only if it passes that test, and a Primary feature of a
  Bulb, LightStrip or Dimmer has none. The function returns whenever the device and the
  parent, if any, carry both version entries.
\<close>

theorem feature_enumeration:
  "(has_versions device \<and> (\<forall>p. parent = Some p \<longrightarrow> has_versions p) \<longrightarrow>
      (\<exists>es. entities_for_device env cls device ftype parent = Inr es))
   \<and> (\<forall>es. entities_for_device env cls device ftype parent = Inr es \<longrightarrow>
        map ent_feature es =
          map Some (filter (\<lambda>feat. feature_type feat = ftype \<and>
                       (feature_category feat \<noteq> Primary \<or>
                        device_type device \<notin> {Bulb, LightStrip, Dimmer}))
                    (map snd (features device)))
        \<and> (\<forall>feat \<in> snd ` set (features device).
              (Some feat \<in> ent_feature ` set es) =
              (feature_type feat = ftype \<and>
                 (feature_category feat \<noteq> Primary \<or>
                  device_type device \<notin> {Bulb, LightStrip, Dimmer})))
        \<and> (\<forall>feat \<in> snd ` set (features device).
              feature_category feat = Primary \<and> device_type device \<in> {Bulb, LightStrip, Dimmer}
              \<longrightarrow> Some feat \<notin> ent_feature ` set es))"
proof (intro conjI impI allI)
  assume "has_versions device \<and> (\<forall>p. parent = Some p \<longrightarrow> has_versions p)"
  then show "\<exists>es. entities_for_device env cls device ftype parent = Inr es"
    unfolding entities_for_device_def
    using entities_for_features_returns [of device parent env cls ftype] by simp
next
  fix es
  assume "entities_for_device env cls device ftype parent = Inr es"
  then have m: "map ent_feature es =
          map Some (filter (\<lambda>feat. feature_type feat = ftype \<and>
                       (feature_category feat \<noteq> Primary \<or>
                        device_type device \<notin> {Bulb, LightStrip, Dimmer}))
                    (map snd (features device)))"
    unfolding entities_for_device_def using entities_for_features_Inr by blast
  then show "map ent_feature es =
          map Some (filter (\<lambda>feat. feature_type feat = ftype \<and>
                       (feature_category feat \<noteq> Primary \<or>
                        device_type device \<notin> {Bulb, LightStrip, Dimmer}))
                    (map snd (features device)))" .
  have s: "ent_feature ` set es = Some ` {feat \<in> snd ` set (features device).
             feature_type feat = ftype \<and>
                       (feature_category feat \<noteq> Primary \<or>
                        device_type device \<notin> {Bulb, LightStrip, Dimmer})}"
    using arg_cong [OF m, of set] by simp
  show "\<forall>feat \<in> snd ` set (features device).
              (Some feat \<in> ent_feature ` set es) =
              (feature_type feat = ftype \<and>
                 (feature_category feat \<noteq> Primary \<or>
                  device_type device \<notin> {Bulb, LightStrip, Dimmer}))"
    unfolding s by auto
  show "\<forall>feat \<in> snd ` set (features device).
              feature_category feat = Primary \<and> device_type device \<in> {Bulb, LightStrip, Dimmer}
              \<longrightarrow> Some feat \<notin> ent_feature ` set es"
    unfolding s by auto
qed

theorem feature_enumeration_witness:
  "has_versions bulb \<and> feat_state \<in> snd ` set (features bulb)
   \<and> feature_category feat_state = Primary \<and> device_type bulb \<in> {Bulb, LightStrip, Dimmer}
   \<and> (\<exists>es. entities_for_device sample_env switch_cls bulb Type_Switch None = Inr es
         \<and> map ent_feature es = [Some feat_led]
         \<and> Some feat_state \<notin> ent_feature ` set es)"
proof -
  have h: "has_versions bulb" by (simp add: has_versions_samples)
  have f: "feat_state \<in> snd ` set (features bulb)"
    and c: "feature_category feat_state = Primary"
    and d: "device_type bulb \<in> {Bulb, LightStrip, Dimmer}"
    by (simp_all add: bulb_def sample_features_def feat_state_def)
  from feature_enumeration [of bulb None sample_env switch_cls Type_Switch] h
  obtain es where es: "entities_for_device sample_env switch_cls bulb Type_Switch None = Inr es"
    and n: "\<forall>feat \<in> snd ` set (features bulb).
              feature_category feat = Primary \<and> device_type bulb \<in> {Bulb, LightStrip, Dimmer}
              \<longrightarrow> Some feat \<notin> ent_feature ` set es"
    by auto
  have "map_sum id (map ent_feature) (entities_for_device sample_env switch_cls bulb Type_Switch None)
          = Inr [Some feat_led]"
    by code_simp
  with es have m: "map ent_feature es = [Some feat_led]" by simp
  from n f c d have k: "Some feat_state \<notin> ent_feature ` set es" by blast
  have "\<exists>es. entities_for_device sample_env switch_cls bulb Type_Switch None = Inr es
         \<and> map ent_feature es = [Some feat_led]
         \<and> Some feat_state \<notin> ent_feature ` set es"
    using es m k by (intro exI [of _ es]) simp
  with h f c d show ?thesis by simp
qed

section \<open>The write-action wrapper: the claim\<close>

text \<open>
  C7. When the wrapped function returns, the wrapper returns too and has requested
  exactly one refresh after the function's own calls. When the wrapped function raises
  an exception of the device library, the wrapper raises a \<open>HomeAssistantError\<close> of the
  integration's domain whose placeholders carry the function's name and the text of the
  exception, and makes no refresh request; for an \<open>AuthenticationError\<close> it has started
  the re-authentication before raising, and for the other two kinds it has made no call.
  In every case the number of refresh requests grows by one on success and by none on an
  exception.
\<close>

theorem refresh_after_write:
  "(func_call func calls = (None, calls') \<longrightarrow>
      async_refresh_after env func calls = (None, calls' @ [async_request_refresh]))
   \<and> (func_call func calls = (Some ex, calls') \<and> is_KasaException ex \<longrightarrow>
      (\<exists>key. async_refresh_after env func calls =
         (Some (HomeAssistantError (DOMAIN env) key
                  [(''func'', func_name func), (''exc'', str ex)] ex),
          calls' @ (if is_AuthenticationError ex then [async_start_reauth] else []))))
   \<and> (func_call func calls = (r, calls') \<longrightarrow>
      count_list (snd (async_refresh_after env func calls)) async_request_refresh =
        count_list calls' async_request_refresh + (if r = None then 1 else 0))"
proof (intro conjI impI)
  assume "func_call func calls = (None, calls')"
  then show "async_refresh_after env func calls = (None, calls' @ [async_request_refresh])"
    by (simp add: async_refresh_after_def)
next
  assume "func_call func calls = (Some ex, calls') \<and> is_KasaException ex"
  then show "\<exists>key. async_refresh_after env func calls =
         (Some (HomeAssistantError (DOMAIN env) key
                  [(''func'', func_name func), (''exc'', str ex)] ex),
          calls' @ (if is_AuthenticationError ex then [async_start_reauth] else []))"
    by (cases ex) (simp_all add: async_refresh_after_def)
next
  assume a: "func_call func calls = (r, calls')"
  show "count_list (snd (async_refresh_after env func calls)) async_request_refresh =
        count_list calls' async_request_refresh + (if r = None then 1 else 0)"
  proof (cases r)
    case None
    with a show ?thesis by (simp add: async_refresh_after_def)
  next
    case (Some ex)
    with a show ?thesis by (cases ex) (simp_all add: async_refresh_after_def)
  qed
qed

theorem refresh_after_write_witness:
  "func_call turn_on_ok [] = (None, [])
   \<and> async_refresh_after sample_env turn_on_ok [] = (None, [async_request_refresh])
   \<and> func_call turn_on_denied [] = (Some (AuthenticationError ''Invalid credentials''), [])
   \<and> is_KasaException (AuthenticationError ''Invalid credentials'')
   \<and> async_refresh_after sample_env turn_on_denied [] =
       (Some (HomeAssistantError ''tplink'' ''device_authentication''
                [(''func'', ''async_turn_on''), (''exc'', ''Invalid credentials'')]
                (AuthenticationError ''Invalid credentials'')),
        [async_start_reauth])
   \<and> func_call turn_on_timeout [] = (Some (TimeoutError ''Timed out''), [])
   \<and> is_KasaException (TimeoutError ''Timed out'')
   \<and> async_refresh_after sample_env turn_on_timeout [] =
       (Some (HomeAssistantError ''tplink'' ''device_timeout''
                [(''func'', ''async_turn_on''), (''exc'', ''Timed out'')]
                (TimeoutError ''Timed out'')),
        [])"
proof -
  have a: "func_call turn_on_ok [] = (None, [])"
    and b: "func_call turn_on_denied [] = (Some (AuthenticationError ''Invalid credentials''), [])"
    and c: "func_call turn_on_timeout [] = (Some (TimeoutError ''Timed out''), [])"
    by (simp_all add: turn_on_ok_def turn_on_denied_def turn_on_timeout_def)
  have k: "is_KasaException (AuthenticationError ''Invalid credentials'')"
    "is_KasaException (TimeoutError ''Timed out'')"
    by simp_all
  from refresh_after_write [of turn_on_ok "[]" "[]" sample_env] a
  have 1: "async_refresh_after sample_env turn_on_ok [] = (None, [async_request_refresh])"
    by simp
  from refresh_after_write [of turn_on_denied "[]" "[]" sample_env
      "AuthenticationError ''Invalid credentials''"] b k
  obtain key1 where "async_refresh_after sample_env turn_on_denied [] =
       (Some (HomeAssistantError (DOMAIN sample_env) key1
                [(''func'', func_name turn_on_denied),
                 (''exc'', str (AuthenticationError ''Invalid credentials''))]
                (AuthenticationError ''Invalid credentials'')),
        [async_start_reauth])"
    by auto
  moreover have "fst (async_refresh_after sample_env turn_on_denied []) =
       Some (HomeAssistantError ''tplink'' ''device_authentication''
                [(''func'', ''async_turn_on''), (''exc'', ''Invalid credentials'')]
                (AuthenticationError ''Invalid credentials''))"
    by (simp add: async_refresh_after_def turn_on_denied_def sample_env_def)
  ultimately have 2: "async_refresh_after sample_env turn_on_denied [] =
       (Some (HomeAssistantError ''tplink'' ''device_authentication''
                [(''func'', ''async_turn_on''), (''exc'', ''Invalid credentials'')]
                (AuthenticationError ''Invalid credentials'')),
        [async_start_reauth])"
    by simp
  have 3: "async_refresh_after sample_env turn_on_timeout [] =
       (Some (HomeAssistantError ''tplink'' ''device_timeout''
                [(''func'', ''async_turn_on''), (''exc'', ''Timed out'')]
                (TimeoutError ''Timed out'')),
        [])"
    by (simp add: async_refresh_after_def turn_on_timeout_def sample_env_def)
  from a b c k 1 2 3 show ?thesis by simp
qed


section \<open>Availability: the claim\<close>

lemma call_update_attrs_eq:
  "async_call_update_attrs outcome (self, log) =
     (None, self\<lparr>attr_available := (outcome = None)\<rparr>,
      log @ (case outcome of
               None \<Rightarrow> []
             | Some ex \<Rightarrow>
                 if attr_available self
                 then [Warning ''Unable to read data for %s %s: %s''
                         (ent_device self) (entity_id self) ex]
                 else []))"
  by (simp add: async_call_update_attrs_def split: option.splits)

lemma handle_update_eq:
  "handle_coordinator_update outcome st = async_call_update_attrs outcome st"
  by (cases st) (simp add: handle_coordinator_update_def call_update_attrs_eq)

lemma refreshes_snoc:
  "refreshes (outcomes @ [outcome]) st =
     (case refreshes outcomes st of
        (Some ex, st') \<Rightarrow> (Some ex, st')
      | (None, st') \<Rightarrow> handle_coordinator_update outcome st')"
proof (induction outcomes arbitrary: st)
  case Nil
  show ?case
    by (cases st) (simp add: handle_update_eq call_update_attrs_eq)
next
  case (Cons a outcomes)
  show ?case
    by (cases st) (simp add: Cons.IH handle_update_eq call_update_attrs_eq)
qed

lemma failure_streaks_snoc:
  "failure_streaks (outcomes @ [outcome]) =
     failure_streaks outcomes +
       (if outcome \<noteq> None \<and> (outcomes = [] \<or> last outcomes = None) then 1 else 0)"
proof -
  have "filter (\<lambda>i. (outcomes @ [outcome]) ! i \<noteq> None \<and>
                  (i = 0 \<or> (outcomes @ [outcome]) ! (i - 1) = None)) [0..<length outcomes]
        = filter (\<lambda>i. outcomes ! i \<noteq> None \<and> (i = 0 \<or> outcomes ! (i - 1) = None))
            [0..<length outcomes]"
    by (rule filter_cong) (auto simp: nth_append)
  moreover have "(length outcomes = 0 \<or> (outcomes @ [outcome]) ! (length outcomes - 1) = None)
        = (outcomes = [] \<or> last outcomes = None)"
    by (cases "outcomes = []") (auto simp: nth_append last_conv_nth)
  ultimately show ?thesis
    by (simp add: failure_streaks_def)
qed

lemma refreshes_state:
  assumes "attr_available self"
  shows "\<exists>self' log'. refreshes outcomes (self, log) = (None, self', log')
           \<and> attr_available self' = (outcomes = [] \<or> last outcomes = None)
           \<and> length log' = length log + failure_streaks outcomes"
proof (induction outcomes rule: rev_induct)
  case Nil
  show ?case using assms by (simp add: failure_streaks_def)
next
  case (snoc outcome outcomes)
  then obtain self' log' where r: "refreshes outcomes (self, log) = (None, self', log')"
    and a: "attr_available self' = (outcomes = [] \<or> last outcomes = None)"
    and l: "length log' = length log + failure_streaks outcomes"
    by (elim exE conjE)
  show ?case
    unfolding refreshes_snoc r failure_streaks_snoc
    using a l by (simp add: handle_update_eq call_update_attrs_eq split: option.splits)
qed

lemma refreshes_returns: "fst (refreshes outcomes st) = None"
proof (induction outcomes arbitrary: st)
  case Nil
  show ?case by simp
next
  case (Cons a outcomes)
  show ?case
    by (cases st) (simp add: Cons.IH handle_update_eq call_update_attrs_eq)
qed

text \<open>
  C8. A refresh never lets an exception of the hook out. After a refresh the entity's
  flag is true when the hook returned and false when it raised, and the refresh logs one
  warning when the hook raised while the flag was true, and nothing otherwise. Over any
  sequence of refreshes of an entity that starts available, no exception leaves, the
  number of warnings logged is the number of failure streaks of the sequence, and the
  flag at the end tells whether the last refresh succeeded.
\<close>

theorem availability_state_machine:
  "fst (handle_coordinator_update outcome (self, log)) = None
   \<and> attr_available (fst (snd (handle_coordinator_update outcome (self, log))))
       = (outcome = None)
   \<and> snd (snd (handle_coordinator_update outcome (self, log))) =
       log @ (case outcome of
                None \<Rightarrow> []
              | Some ex \<Rightarrow>
                  if attr_available self
                  then [Warning ''Unable to read data for %s %s: %s''
                          (ent_device self) (entity_id self) ex]
                  else [])
   \<and> fst (refreshes outcomes (self, log)) = None
   \<and> (attr_available self \<longrightarrow>
        length (snd (snd (refreshes outcomes (self, log)))) = length log + failure_streaks outcomes
        \<and> attr_available (fst (snd (refreshes outcomes (self, log))))
            = (outcomes = [] \<or> last outcomes = None))"
proof (intro conjI impI)
  show "fst (handle_coordinator_update outcome (self, log)) = None"
    and "attr_available (fst (snd (handle_coordinator_update outcome (self, log))))
       = (outcome = None)"
    and "snd (snd (handle_coordinator_update outcome (self, log))) =
       log @ (case outcome of
                None \<Rightarrow> []
              | Some ex \<Rightarrow>
                  if attr_available self
                  then [Warning ''Unable to read data for %s %s: %s''
                          (ent_device self) (entity_id self) ex]
                  else [])"
    by (simp_all add: handle_update_eq call_update_attrs_eq)
  show "fst (refreshes outcomes (self, log)) = None"
    by (rule refreshes_returns)
next
  assume "attr_available self"
  from refreshes_state [OF this, of outcomes log]
  show "length (snd (snd (refreshes outcomes (self, log)))) = length log + failure_streaks outcomes"
    and "attr_available (fst (snd (refreshes outcomes (self, log))))
            = (outcomes = [] \<or> last outcomes = None)"
    by auto
qed

theorem availability_state_machine_witness:
  "\<exists>self. CoordinatedTPLinkEntity_init sample_env switch_cls strip (Some feat_led) None = Inr self
     \<and> attr_available self
     \<and> failure_streaks [Some (KasaException ''a''), Some (KasaException ''b''), None,
                         Some (OtherException ''c''), None] = 2
     \<and> length (snd (snd (refreshes
          [Some (KasaException ''a''), Some (KasaException ''b''), None,
           Some (OtherException ''c''), None] (self, [])))) = 2
     \<and> attr_available (fst (snd (refreshes
          [Some (KasaException ''a''), Some (KasaException ''b''), None,
           Some (OtherException ''c''), None] (self, []))))
     \<and> snd (snd (refreshes [Some (KasaException ''a''), Some (KasaException ''b'')] (self, [])))
         = [Warning ''Unable to read data for %s %s: %s'' strip None (KasaException ''a'')]
     \<and> \<not> attr_available (fst (snd (refreshes
          [Some (KasaException ''a''), Some (KasaException ''b'')] (self, []))))"
proof -
  obtain self
    where s: "CoordinatedTPLinkEntity_init sample_env switch_cls strip (Some feat_led) None = Inr self"
    using init_returns [of strip None] has_versions_samples by blast
  have a: "attr_available self" and d: "ent_device self = strip" and i: "entity_id self = None"
    using init_fields [OF s] by simp_all
  have f: "failure_streaks [Some (KasaException ''a''), Some (KasaException ''b''), None,
                         Some (OtherException ''c''), None] = 2"
    by code_simp
  have g: "failure_streaks [Some (KasaException ''a''), Some (KasaException ''b'')] = 1"
    by code_simp
  note t1 = availability_state_machine [of None self "[]"
      "[Some (KasaException ''a''), Some (KasaException ''b''), None,
        Some (OtherException ''c''), None]"]
  note t2 = availability_state_machine [of None self "[]"
      "[Some (KasaException ''a''), Some (KasaException ''b'')]"]
  have "length (snd (snd (refreshes
          [Some (KasaException ''a''), Some (KasaException ''b''), None,
           Some (OtherException ''c''), None] (self, [])))) = 2"
    and "attr_available (fst (snd (refreshes
          [Some (KasaException ''a''), Some (KasaException ''b''), None,
           Some (OtherException ''c''), None] (self, []))))"
    using t1 a f by simp_all
  moreover have "\<not> attr_available (fst (snd (refreshes
          [Some (KasaException ''a''), Some (KasaException ''b'')] (self, []))))"
    using t2 a by simp
  moreover have "snd (snd (refreshes [Some (KasaException ''a''), Some (KasaException ''b'')]
          (self, [])))
         = [Warning ''Unable to read data for %s %s: %s'' strip None (KasaException ''a'')]"
    using a d i by (simp add: handle_update_eq call_update_attrs_eq)
  ultimately show ?thesis using s a f by blast
qed

section \<open>Descriptions: the claim\<close>

text \<open>
  C9. The description's key and translation key are the feature's id and its name is the
  feature's name. Without the option \<open>entity_registry_enabled_default\<close> the default is
  false exactly for a Debug feature and true for every other category; an option that
  the caller passes is kept. So the default is false exactly when the caller passed
  false, or passed nothing for a Debug feature.
\<close>

theorem description_fields:
  "key (description_for_feature feature kwargs) = feature_id feature
   \<and> translation_key (description_for_feature feature kwargs) = feature_id feature
   \<and> name (description_for_feature feature kwargs) = feature_name feature
   \<and> (extras_entity_registry_enabled_default kwargs = None \<longrightarrow>
        entity_registry_enabled_default (description_for_feature feature kwargs) =
          (feature_category feature \<noteq> Debug))
   \<and> (\<forall>b. extras_entity_registry_enabled_default kwargs = Some b \<longrightarrow>
        entity_registry_enabled_default (description_for_feature feature kwargs) = b)
   \<and> (\<not> entity_registry_enabled_default (description_for_feature feature kwargs)) =
        (extras_entity_registry_enabled_default kwargs = Some False
         \<or> (extras_entity_registry_enabled_default kwargs = None
             \<and> feature_category feature = Debug))"
  by (auto simp: description_for_feature_def split: option.splits)

theorem description_fields_witness:
  "key (description_for_feature feat_rssi \<lparr>extras_entity_registry_enabled_default = None\<rparr>)
     = ''rssi''
   \<and> name (description_for_feature feat_rssi \<lparr>extras_entity_registry_enabled_default = None\<rparr>)
     = ''RSSI''
   \<and> \<not> entity_registry_enabled_default
         (description_for_feature feat_rssi \<lparr>extras_entity_registry_enabled_default = None\<rparr>)
   \<and> entity_registry_enabled_default
         (description_for_feature feat_rssi
            \<lparr>extras_entity_registry_enabled_default = Some True\<rparr>)
   \<and> entity_registry_enabled_default
         (description_for_feature feat_led \<lparr>extras_entity_registry_enabled_default = None\<rparr>)
   \<and> \<not> entity_registry_enabled_default
         (description_for_feature feat_led
            \<lparr>extras_entity_registry_enabled_default = Some False\<rparr>)"
proof -
  have c: "feature_category feat_rssi = Debug" "feature_category feat_led \<noteq> Debug"
    "feature_id feat_rssi = ''rssi''" "feature_name feat_rssi = ''RSSI''"
    by (simp_all add: feat_rssi_def feat_led_def)
  show ?thesis
    using c
      description_fields [of feat_rssi "\<lparr>extras_entity_registry_enabled_default = None\<rparr>"]
      description_fields [of feat_rssi "\<lparr>extras_entity_registry_enabled_default = Some True\<rparr>"]
      description_fields [of feat_led "\<lparr>extras_entity_registry_enabled_default = None\<rparr>"]
      description_fields [of feat_led "\<lparr>extras_entity_registry_enabled_default = Some False\<rparr>"]
    by simp
qed

end
